theory Spec2Isabelle
  imports Main "HOL-Library.Word"
begin

section \<open>The response object of \<^verbatim>\<open>response.go\<close>\<close>

text \<open>
  The file \<^verbatim>\<open>response.go\<close> wraps an \<^verbatim>\<open>http.ResponseWriter\<close>. Its methods mutate the
  \<^verbatim>\<open>Response\<close> struct, the header map of the wrapped writer, and call the writer. The
  embedding passes the struct explicitly and returns it updated; calls that leave the
  struct (the writer's \<^verbatim>\<open>WriteHeader\<close> and \<^verbatim>\<open>Write\<close>, the \<^verbatim>\<open>go\<close> statement) are appended,
  in program order, to a list of effects.
\<close>

subsection \<open>Bytes, headers, errors\<close>

type_synonym byte = "8 word"

text \<open>
  \<^verbatim>\<open>http.Header\<close> is \<^verbatim>\<open>map[string][]string\<close>. The methods of \<^verbatim>\<open>http.Header\<close> canonicalise
  their key argument; the only keys \<^verbatim>\<open>response.go\<close> itself passes are the constants
  \<^verbatim>\<open>HeaderVary\<close> and \<^verbatim>\<open>HeaderContentLength\<close>, which are in canonical form, so the functions
  below index the map with the key as given. A \<^verbatim>\<open>[]byte\<close> that may be \<^verbatim>\<open>nil\<close> is a
  \<open>byte list option\<close>: \<open>None\<close> is \<^verbatim>\<open>nil\<close>, \<open>Some []\<close> the empty non-nil slice.
\<close>

type_synonym Header = "string \<rightharpoonup> string list"

definition Header_Get :: "Header \<Rightarrow> string \<Rightarrow> string" where
  "Header_Get h key = (case h key of None \<Rightarrow> [] | Some [] \<Rightarrow> [] | Some (v # _) \<Rightarrow> v)"

definition Header_Set :: "Header \<Rightarrow> string \<Rightarrow> string \<Rightarrow> Header" where
  "Header_Set h key v = h(key \<mapsto> [v])"

definition Header_Add :: "Header \<Rightarrow> string \<Rightarrow> string \<Rightarrow> Header" where
  "Header_Add h key v = h(key \<mapsto> (case h key of None \<Rightarrow> [] | Some vs \<Rightarrow> vs) @ [v])"

definition Header_Del :: "Header \<Rightarrow> string \<Rightarrow> Header" where
  "Header_Del h key = h(key := None)"

text \<open>
  Modelled from the spec: the constants \<^verbatim>\<open>HeaderVary\<close> and \<^verbatim>\<open>HeaderContentLength\<close> are
  declared in a file of the package that is not part of the sources at hand; the spec
  calls them the Vary header and the Content-Length header.
\<close>

definition HeaderVary :: string where
  "HeaderVary = ''Vary''"

definition HeaderContentLength :: string where
  "HeaderContentLength = ''Content-Length''"

text \<open>
  Modelled from the spec: \<^verbatim>\<open>Err\<close> is the package's error value, declared outside
  \<^verbatim>\<open>response.go\<close>; \<^verbatim>\<open>Err.WithMsg(m)\<close> is the typed error carrying the message \<open>m\<close>. An
  error that the transport reports is carried as \<open>TransportError\<close>.
\<close>

datatype error = Err_WithMsg string | TransportError string

text \<open>A failed single-value type assertion \<^verbatim>\<open>x.(T)\<close> panics.\<close>

datatype fault = InterfaceConversionPanic

subsection \<open>\<^verbatim>\<open>strconv.Itoa\<close>\<close>

definition digit :: "nat \<Rightarrow> char" where
  "digit d = char_of (48 + d)"

fun digits :: "nat \<Rightarrow> string" where
  "digits n = (if n < 10 then [digit n] else digits (n div 10) @ [digit (n mod 10)])"

declare digits.simps [simp del]

definition Itoa :: "int \<Rightarrow> string" where
  "Itoa i = (if i < 0 then CHR ''-'' # digits (nat (- i)) else digits (nat i))"

text \<open>The number a string of decimal digits denotes (used to read a header value back).\<close>

definition decimal :: "string \<Rightarrow> nat" where
  "decimal s = foldl (\<lambda>acc c. 10 * acc + (of_char c - 48)) 0 s"

subsection \<open>Hooks and effects\<close>

text \<open>
  The struct has two hook lists. \<^verbatim>\<open>afterHooks\<close> is the chain the spec calls before-commit
  (the hooks run after the middleware and before the header is written); \<^verbatim>\<open>endHooks\<close> is
  the chain the spec calls after-commit.

  A hook is a \<^verbatim>\<open>func()\<close> closure over the response. What it reaches of the response is
  the status, the body and the header map: the two flags only ever go from false to
  true, and the spec has both hook lists frozen from the moment the commit begins. A hook
  is therefore a function on these three fields; hooks that call the writer themselves
  are outside the model.
\<close>

record fields =
  f_status :: int
  f_body :: "byte list option"
  f_header :: Header

type_synonym hook = "fields \<Rightarrow> fields"

datatype effect =
    Rw_WriteHeader int Header
  | Rw_Write "byte list"
  | Go_runHooks "hook list"
  | W_Flush

text \<open>
  \<open>Rw_WriteHeader s h\<close>: \<^verbatim>\<open>r.rw.WriteHeader(s)\<close> was called while the header map was \<open>h\<close>.
  \<open>Rw_Write b\<close>: \<^verbatim>\<open>r.rw.Write(b)\<close>. \<open>Go_runHooks hs\<close>: \<^verbatim>\<open>go runHooks(hs)\<close> started a goroutine.
  \<open>W_Flush\<close>: the flusher of \<^verbatim>\<open>r.w\<close> was called.
\<close>

subsection \<open>The struct\<close>

text \<open>
  \<^verbatim>\<open>r.w\<close> is seen through the optional interfaces it may implement: each field is
  \<open>None\<close> (or \<open>False\<close>) when the dynamic type of \<^verbatim>\<open>r.w\<close> lacks the interface, and otherwise
  holds what the method returns.
\<close>

record ('c, 'n, 'o) ResponseWriter =
  Flusher :: bool
  Hijacker :: "'c option"
  CloseNotifier :: "'n option"
  Pusher :: "(string \<Rightarrow> 'o \<Rightarrow> error option) option"

text \<open>
  \<open>rw\<close> is the (possibly wrapping) writer used for output: given the effects so far and a
  buffer, what its \<^verbatim>\<open>Write\<close> returns. \<open>rw_Header\<close> is the map \<^verbatim>\<open>r.rw.Header()\<close> returns.
  \<open>effects\<close> is the list of effects so far.
\<close>

record ('c, 'n, 'o) Response =
  status :: int
  body :: "byte list option"
  afterHooks :: "hook list"
  endHooks :: "hook list"
  ended :: bool
  wroteHeader :: bool
  w :: "('c, 'n, 'o) ResponseWriter"
  rw :: "effect list \<Rightarrow> byte list \<Rightarrow> int \<times> error option"
  rw_Header :: Header
  effects :: "effect list"

text \<open>
  Modelled from the spec: the type \<^verbatim>\<open>atomicBool\<close> is declared outside \<^verbatim>\<open>response.go\<close>.
  \<^verbatim>\<open>swapTrue\<close> is the atomic test-and-set of the spec: it sets the flag and reports
  whether this call flipped it; \<^verbatim>\<open>setTrue\<close> sets it; \<^verbatim>\<open>isTrue\<close> reads it.
\<close>

definition swapTrue :: "bool \<Rightarrow> bool \<times> bool" where
  "swapTrue b = (\<not> b, True)"

definition setTrue :: "bool \<Rightarrow> bool" where
  "setTrue b = True"

definition isTrue :: "bool \<Rightarrow> bool" where
  "isTrue b = b"

section \<open>The methods\<close>

definition Header :: "('c, 'n, 'o) Response \<Rightarrow> Header" where
  "Header r = rw_Header r"

definition Get :: "string \<Rightarrow> ('c, 'n, 'o) Response \<Rightarrow> string" where
  "Get key r = Header_Get (Header r) key"

definition Set :: "string \<Rightarrow> string \<Rightarrow> ('c, 'n, 'o) Response \<Rightarrow> ('c, 'n, 'o) Response" where
  "Set key v r = r\<lparr>rw_Header := Header_Set (Header r) key v\<rparr>"

definition Del :: "string \<Rightarrow> ('c, 'n, 'o) Response \<Rightarrow> ('c, 'n, 'o) Response" where
  "Del key r = r\<lparr>rw_Header := Header_Del (Header r) key\<rparr>"

definition Vary :: "string \<Rightarrow> ('c, 'n, 'o) Response \<Rightarrow> ('c, 'n, 'o) Response" where
  "Vary field r =
     (if field \<noteq> [] \<and> Get HeaderVary r \<noteq> ''*'' then
        (if field = ''*'' then r\<lparr>rw_Header := Header_Set (Header r) HeaderVary field\<rparr>
         else r\<lparr>rw_Header := Header_Add (Header r) HeaderVary field\<rparr>)
      else r)"


subsection \<open>\<^verbatim>\<open>ResetHeader\<close> and the default filter\<close>

text \<open>
  A compiled \<^verbatim>\<open>*regexp.Regexp\<close> is used through \<^verbatim>\<open>MatchString\<close> only, so it is modelled as
  the predicate on strings that \<^verbatim>\<open>MatchString\<close> computes.
\<close>

type_synonym Regexp = "string \<Rightarrow> bool"

definition MatchString :: "Regexp \<Rightarrow> string \<Rightarrow> bool" where
  "MatchString reg s = reg s"

definition lower_ascii :: "char \<Rightarrow> char" where
  "lower_ascii c = (let n = (of_char c :: nat) in if 65 \<le> n \<and> n \<le> 90 then char_of (n + 32) else c)"

text \<open>
  \<open>lit_fold p s\<close>: the literal \<open>p\<close>, under the flag \<^verbatim>\<open>(?i)\<close> and anchored by \<^verbatim>\<open>^\<close>, matches
  at the start of \<open>s\<close>. \<open>fold_rune p s\<close> matches one character of the literal and returns
  the rest of \<open>s\<close>. Case folding in Go's regexp follows Unicode simple folding, in which
  s also folds to U+017F (bytes C5 BF in UTF-8) and k to U+212A (bytes E2 84 AA).
\<close>

definition fold_rune :: "char \<Rightarrow> string \<Rightarrow> string option" where
  "fold_rune p s =
     (case s of
        [] \<Rightarrow> None
      | c # cs \<Rightarrow>
          if lower_ascii c = lower_ascii p then Some cs
          else if lower_ascii p = CHR ''s'' \<and> take 2 s = [CHR 0xC5, CHR 0xBF] then Some (drop 2 s)
          else if lower_ascii p = CHR ''k'' \<and> take 3 s = [CHR 0xE2, CHR 0x84, CHR 0xAA]
            then Some (drop 3 s)
          else None)"

fun lit_fold :: "string \<Rightarrow> string \<Rightarrow> bool" where
  "lit_fold [] s = True"
| "lit_fold (p # ps) s = (case fold_rune p s of None \<Rightarrow> False | Some rest \<Rightarrow> lit_fold ps rest)"

definition defaultHeaderFilterReg :: Regexp where
  "defaultHeaderFilterReg key =
     list_ex (\<lambda>p. lit_fold p key)
       [''accept'', ''allow'', ''retry-after'', ''warning'', ''vary'',
        ''access-control-allow-'', ''x-ratelimit-'']"

text \<open>
  The loop \<^verbatim>\<open>for key := range header\<close> visits the keys of the map in an order Go leaves
  open; \<open>keys\<close> is that order. Only the key being visited is ever deleted, so every key
  of the map is visited.
\<close>

fun range_header :: "Regexp \<Rightarrow> string list \<Rightarrow> Header \<Rightarrow> Header" where
  "range_header reg [] header = header"
| "range_header reg (key # keys) header =
     range_header reg keys (if \<not> MatchString reg key then header(key := None) else header)"

definition ResetHeader ::
  "Regexp list \<Rightarrow> string list \<Rightarrow> ('c, 'n, 'o) Response \<Rightarrow> ('c, 'n, 'o) Response" where
  "ResetHeader filterReg keys r =
     (let reg = (if length filterReg > 0 then filterReg ! 0 else defaultHeaderFilterReg);
          header = Header r
      in r\<lparr>rw_Header := range_header reg keys header\<rparr>)"

subsection \<open>\<^verbatim>\<open>runHooks\<close>\<close>

definition call :: "hook \<Rightarrow> ('c, 'n, 'o) Response \<Rightarrow> ('c, 'n, 'o) Response" where
  "call h r =
     (let v = h \<lparr>f_status = status r, f_body = body r, f_header = rw_Header r\<rparr>
      in r\<lparr>status := f_status v, body := f_body v, rw_Header := f_header v\<rparr>)"

function runHooks_from ::
  "int \<Rightarrow> hook list \<Rightarrow> ('c, 'n, 'o) Response \<Rightarrow> ('c, 'n, 'o) Response" where
  "runHooks_from i hooks r =
     (if i \<ge> 0 then runHooks_from (i - 1) hooks (call (hooks ! nat i) r) else r)"
  by pat_completeness auto
termination
  by (relation "measure (\<lambda>(i, hooks, r). nat (i + 1))") auto

declare runHooks_from.simps [simp del]

definition runHooks :: "hook list \<Rightarrow> ('c, 'n, 'o) Response \<Rightarrow> ('c, 'n, 'o) Response" where
  "runHooks hooks r = runHooks_from (int (length hooks) - 1) hooks r"

subsection \<open>\<^verbatim>\<open>WriteHeader\<close> and \<^verbatim>\<open>Write\<close>\<close>

definition rw_WriteHeader :: "int \<Rightarrow> ('c, 'n, 'o) Response \<Rightarrow> ('c, 'n, 'o) Response" where
  "rw_WriteHeader s r = r\<lparr>effects := effects r @ [Rw_WriteHeader s (rw_Header r)]\<rparr>"

definition rw_Write ::
  "byte list \<Rightarrow> ('c, 'n, 'o) Response \<Rightarrow> (int \<times> error option) \<times> ('c, 'n, 'o) Response" where
  "rw_Write buf r = (rw r (effects r) buf, r\<lparr>effects := effects r @ [Rw_Write buf]\<rparr>)"

definition go_runHooks :: "hook list \<Rightarrow> ('c, 'n, 'o) Response \<Rightarrow> ('c, 'n, 'o) Response" where
  "go_runHooks hooks r = r\<lparr>effects := effects r @ [Go_runHooks hooks]\<rparr>"

text \<open>
  \<^verbatim>\<open>IsStatusCode\<close> and \<^verbatim>\<open>isEmptyStatus\<close> are functions of the package declared outside
  \<^verbatim>\<open>response.go\<close>; \<open>WriteHeader\<close> takes them as parameters.
\<close>

definition WriteHeader ::
  "(int \<Rightarrow> bool) \<Rightarrow> (int \<Rightarrow> bool) \<Rightarrow> int \<Rightarrow> ('c, 'n, 'o) Response \<Rightarrow> ('c, 'n, 'o) Response" where
  "WriteHeader IsStatusCode isEmptyStatus code r0 =
     (let (won, flag) = swapTrue (wroteHeader r0);
          r = r0\<lparr>wroteHeader := flag\<rparr>
      in if \<not> won then r
         else
           let r = r\<lparr>ended := setTrue (ended r)\<rparr>;
               r = (if code > 0 then r\<lparr>status := code\<rparr> else r);
               r = runHooks (afterHooks r) r;
               r = (if \<not> IsStatusCode (status r) then
                      (if body r \<noteq> None then r\<lparr>status := 200\<rparr> else r\<lparr>status := 421\<rparr>)
                    else if isEmptyStatus (status r) then r\<lparr>body := None\<rparr>
                    else r);
               r = (case body r of
                      Some b \<Rightarrow> Set HeaderContentLength (Itoa (int (length b))) r
                    | None \<Rightarrow> r);
               r = rw_WriteHeader (status r) r;
               r = (if length (endHooks r) > 0 then go_runHooks (endHooks r) r else r)
           in r)"

definition Write ::
  "(int \<Rightarrow> bool) \<Rightarrow> (int \<Rightarrow> bool) \<Rightarrow> byte list \<Rightarrow> ('c, 'n, 'o) Response
     \<Rightarrow> (int \<times> error option) \<times> ('c, 'n, 'o) Response" where
  "Write IsStatusCode isEmptyStatus buf r =
     (let r = (if \<not> isTrue (wroteHeader r) then
                 let r = (if status r = 0 then r\<lparr>status := 200\<rparr> else r)
                 in WriteHeader IsStatusCode isEmptyStatus 0 r
               else r)
      in rw_Write buf r)"

subsection \<open>Optional capabilities of \<^verbatim>\<open>r.w\<close>\<close>

definition Flush :: "('c, 'n, 'o) Response \<Rightarrow> fault + ('c, 'n, 'o) Response" where
  "Flush r =
     (if Flusher (w r) then Inr (r\<lparr>effects := effects r @ [W_Flush]\<rparr>)
      else Inl InterfaceConversionPanic)"

definition Hijack :: "('c, 'n, 'o) Response \<Rightarrow> fault + 'c" where
  "Hijack r = (case Hijacker (w r) of Some res \<Rightarrow> Inr res | None \<Rightarrow> Inl InterfaceConversionPanic)"

definition CloseNotify :: "('c, 'n, 'o) Response \<Rightarrow> fault + 'n" where
  "CloseNotify r =
     (case CloseNotifier (w r) of Some ch \<Rightarrow> Inr ch | None \<Rightarrow> Inl InterfaceConversionPanic)"

definition Push :: "string \<Rightarrow> 'o \<Rightarrow> ('c, 'n, 'o) Response \<Rightarrow> fault + error option" where
  "Push target opts r =
     (case Pusher (w r) of
        Some pusher \<Rightarrow> Inr (pusher target opts)
      | None \<Rightarrow> Inr (Some (Err_WithMsg ''http.Pusher not implemented'')))"

definition HeaderWrote :: "('c, 'n, 'o) Response \<Rightarrow> bool" where
  "HeaderWrote r = isTrue (wroteHeader r)"


section \<open>Notions used to state the properties\<close>

text \<open>
  \<open>afterHooks_ran code r\<close> is the response as lines 106 to 118 of \<^verbatim>\<open>WriteHeader\<close> leave
  it when the call takes effect: both flags set, the explicit status stored, the
  before-commit hooks run.
\<close>

definition afterHooks_ran :: "int \<Rightarrow> ('c, 'n, 'o) Response \<Rightarrow> ('c, 'n, 'o) Response" where
  "afterHooks_ran code r =
     runHooks (afterHooks r)
       (r\<lparr>wroteHeader := True, ended := True, status := (if code > 0 then code else status r)\<rparr>)"

text \<open>
  The status normalizer in the words of the spec (section 4.2), as a function from the
  status and body before to the status and body after; the two classifications are
  parameters, as they are for \<open>WriteHeader\<close>.
\<close>

definition StatusNormalizer ::
  "(int \<Rightarrow> bool) \<Rightarrow> (int \<Rightarrow> bool) \<Rightarrow> int \<times> byte list option \<Rightarrow> int \<times> byte list option" where
  "StatusNormalizer recognized bodyless sb =
     (case sb of (s, b) \<Rightarrow>
        if \<not> recognized s then (if b \<noteq> None then (200, b) else (421, b))
        else if bodyless s then (s, None)
        else (s, b))"

text \<open>The header map after lines 133 to 136, for the body \<open>b\<close> left by normalization.\<close>

definition commit_header :: "byte list option \<Rightarrow> Header \<Rightarrow> Header" where
  "commit_header b h =
     (case b of Some bs \<Rightarrow> h(HeaderContentLength \<mapsto> [Itoa (int (length bs))]) | None \<Rightarrow> h)"

text \<open>The header commits the transport has received, and the hook lists dispatched.\<close>

fun commits :: "effect list \<Rightarrow> (int \<times> Header) list" where
  "commits [] = []"
| "commits (Rw_WriteHeader s h # es) = (s, h) # commits es"
| "commits (e # es) = commits es"

fun dispatches :: "effect list \<Rightarrow> hook list list" where
  "dispatches [] = []"
| "dispatches (Go_runHooks hs # es) = hs # dispatches es"
| "dispatches (e # es) = dispatches es"

subsection \<open>Concrete inputs\<close>

text \<open>
  A response on which nothing has happened yet: no status, no body, no hooks, no header,
  no effect; its transport has none of the optional capabilities and its \<^verbatim>\<open>Write\<close>
  accepts every buffer in full.
\<close>

definition blank :: "(unit, unit, unit) Response" where
  "blank =
     \<lparr>status = 0, body = None, afterHooks = [], endHooks = [], ended = False,
      wroteHeader = False,
      w = \<lparr>Flusher = False, Hijacker = None, CloseNotifier = None, Pusher = None\<rparr>,
      rw = (\<lambda>es buf. (int (length buf), None)), rw_Header = Map.empty, effects = []\<rparr>"

text \<open>
  A classification of status codes to run \<open>WriteHeader\<close> with: it knows 200, 204, 304,
  404 and 421, of which 204 and 304 allow no body.
\<close>

definition sample_IsStatusCode :: "int \<Rightarrow> bool" where
  "sample_IsStatusCode s = (s = 200 \<or> s = 204 \<or> s = 304 \<or> s = 404 \<or> s = 421)"

definition sample_isEmptyStatus :: "int \<Rightarrow> bool" where
  "sample_isEmptyStatus s = (s = 204 \<or> s = 304)"

text \<open>Hooks that leave a trace: one appends a byte to the body, one sets the status.\<close>

definition mark :: "byte \<Rightarrow> hook" where
  "mark x v = v\<lparr>f_body := Some ((case f_body v of None \<Rightarrow> [] | Some b \<Rightarrow> b) @ [x])\<rparr>"

definition set_status :: "int \<Rightarrow> hook" where
  "set_status s v = v\<lparr>f_status := s\<rparr>"

text \<open>A transport with every optional capability; its \<^verbatim>\<open>Push\<close> refuses the empty target.\<close>

definition full_writer :: "(unit, unit, unit) ResponseWriter" where
  "full_writer =
     \<lparr>Flusher = True, Hijacker = Some (), CloseNotifier = Some (),
      Pusher = Some (\<lambda>target opts. if target = [] then Some (TransportError ''no target'') else None)\<rparr>"

text \<open>A response whose header map has the three keys Accept, X-Custom and Vary.\<close>

definition three_headers :: "(unit, unit, unit) Response" where
  "three_headers =
     blank\<lparr>rw_Header :=
       [''Accept'' \<mapsto> [''text/html''], ''X-Custom'' \<mapsto> [''1''], ''Vary'' \<mapsto> [''Origin'']]\<rparr>"

section \<open>Lemmas\<close>

subsection \<open>The loop of \<^verbatim>\<open>runHooks\<close>\<close>

lemma runHooks_from_append:
  "i < int (length xs) \<Longrightarrow> runHooks_from i (xs @ ys) r = runHooks_from i xs r"
proof (induction i xs r rule: runHooks_from.induct)
  case (1 i hooks r)
  show ?case
  proof (cases "i \<ge> 0")
    case True
    then have "nat i < length hooks" using 1(2) by simp
    then have nth: "(hooks @ ys) ! nat i = hooks ! nat i" by (simp add: nth_append)
    have "runHooks_from (i - 1) (hooks @ ys) (call (hooks ! nat i) r) =
          runHooks_from (i - 1) hooks (call (hooks ! nat i) r)"
      using 1(1)[OF True] 1(2) by simp
    then show ?thesis
      using True nth by (simp add: runHooks_from.simps[of i])
  next
    case False
    then show ?thesis by (simp add: runHooks_from.simps[of i])
  qed
qed

lemma runHooks_snoc: "runHooks (hs @ [h]) r = runHooks hs (call h r)"
proof -
  have "runHooks (hs @ [h]) r = runHooks_from (int (length hs) - 1) (hs @ [h]) (call h r)"
    by (simp add: runHooks_def runHooks_from.simps[of "int (length hs)"])
  also have "\<dots> = runHooks_from (int (length hs) - 1) hs (call h r)"
    by (rule runHooks_from_append) simp
  finally show ?thesis by (simp add: runHooks_def)
qed

lemma runHooks_Nil: "runHooks [] r = r"
  by (simp add: runHooks_def runHooks_from.simps)

lemma runHooks_foldr: "runHooks hs r = foldr call hs r"
  by (induction hs arbitrary: r rule: rev_induct) (simp_all add: runHooks_Nil runHooks_snoc)

lemma call_frame:
  "afterHooks (call h r) = afterHooks r" "endHooks (call h r) = endHooks r"
  "ended (call h r) = ended r" "wroteHeader (call h r) = wroteHeader r"
  "w (call h r) = w r" "rw (call h r) = rw r" "effects (call h r) = effects r"
  by (simp_all add: call_def Let_def)

lemma runHooks_frame:
  "afterHooks (runHooks hs r) = afterHooks r" "endHooks (runHooks hs r) = endHooks r"
  "ended (runHooks hs r) = ended r" "wroteHeader (runHooks hs r) = wroteHeader r"
  "w (runHooks hs r) = w r" "rw (runHooks hs r) = rw r" "effects (runHooks hs r) = effects r"
  unfolding runHooks_foldr by (induction hs) (simp_all add: call_frame)

lemma afterHooks_ran_frame:
  "afterHooks (afterHooks_ran code r) = afterHooks r"
  "endHooks (afterHooks_ran code r) = endHooks r"
  "ended (afterHooks_ran code r) = True" "wroteHeader (afterHooks_ran code r) = True"
  "w (afterHooks_ran code r) = w r" "rw (afterHooks_ran code r) = rw r"
  "effects (afterHooks_ran code r) = effects r"
  by (simp_all add: afterHooks_ran_def runHooks_frame)

subsection \<open>\<^verbatim>\<open>WriteHeader\<close> in one equation\<close>

lemma WriteHeader_committed: "wroteHeader r \<Longrightarrow> WriteHeader I E code r = r"
  by (simp add: WriteHeader_def swapTrue_def)

lemma WriteHeader_tail:
  fixes t :: "('c, 'n, 'o) Response"
  shows "(let r = (if \<not> I (status t) then
                      (if body t \<noteq> None then t\<lparr>status := 200\<rparr> else t\<lparr>status := 421\<rparr>)
                    else if E (status t) then t\<lparr>body := None\<rparr>
                    else t);
               r = (case body r of
                      Some b \<Rightarrow> Set HeaderContentLength (Itoa (int (length b))) r
                    | None \<Rightarrow> r);
               r = rw_WriteHeader (status r) r;
               r = (if length (endHooks r) > 0 then go_runHooks (endHooks r) r else r)
           in r) =
     (let sb = StatusNormalizer I E (status t, body t);
          hd = commit_header (snd sb) (rw_Header t)
      in t\<lparr>status := fst sb, body := snd sb, rw_Header := hd,
           effects := effects t @ Rw_WriteHeader (fst sb) hd #
             (if endHooks t = [] then [] else [Go_runHooks (endHooks t)])\<rparr>)"
  by (cases "I (status t)"; cases "E (status t)"; cases "body t"; cases "endHooks t = []")
     (simp_all add: StatusNormalizer_def commit_header_def Set_def Header_def Header_Set_def
        rw_WriteHeader_def go_runHooks_def Let_def)

lemma WriteHeader_effective:
  assumes "\<not> wroteHeader r"
  shows "WriteHeader I E code r =
     (let h = afterHooks_ran code r;
          sb = StatusNormalizer I E (status h, body h);
          hd = commit_header (snd sb) (rw_Header h)
      in h\<lparr>status := fst sb, body := snd sb, rw_Header := hd,
           effects := effects r @ Rw_WriteHeader (fst sb) hd #
             (if endHooks r = [] then [] else [Go_runHooks (endHooks r)])\<rparr>)"
proof -
  define r1 where
    "r1 = (if code > 0 then r\<lparr>wroteHeader := True, ended := True, status := code\<rparr>
           else r\<lparr>wroteHeader := True, ended := True\<rparr>)"
  define t where "t = runHooks (afterHooks r1) r1"
  have h: "afterHooks_ran code r = t"
    by (simp add: afterHooks_ran_def r1_def t_def)
  have "WriteHeader I E code r =
     (let r = (if \<not> I (status t) then
                 (if body t \<noteq> None then t\<lparr>status := 200\<rparr> else t\<lparr>status := 421\<rparr>)
               else if E (status t) then t\<lparr>body := None\<rparr>
               else t);
          r = (case body r of
                 Some b \<Rightarrow> Set HeaderContentLength (Itoa (int (length b))) r
               | None \<Rightarrow> r);
          r = rw_WriteHeader (status r) r;
          r = (if length (endHooks r) > 0 then go_runHooks (endHooks r) r else r)
      in r)"
    using assms unfolding WriteHeader_def swapTrue_def setTrue_def r1_def t_def
    by (simp add: Let_def)
  also have "\<dots> =
     (let sb = StatusNormalizer I E (status t, body t);
          hd = commit_header (snd sb) (rw_Header t)
      in t\<lparr>status := fst sb, body := snd sb, rw_Header := hd,
           effects := effects t @ Rw_WriteHeader (fst sb) hd #
             (if endHooks t = [] then [] else [Go_runHooks (endHooks t)])\<rparr>)"
    by (rule WriteHeader_tail)
  finally show ?thesis
    unfolding h[symmetric] by (simp add: afterHooks_ran_frame Let_def)
qed

lemma WriteHeader_wroteHeader: "wroteHeader (WriteHeader I E code r)"
  by (cases "wroteHeader r")
     (simp_all add: WriteHeader_committed WriteHeader_effective Let_def afterHooks_ran_frame)

lemma WriteHeader_fields:
  assumes "\<not> wroteHeader r"
  shows "status (WriteHeader I E code r) =
           fst (StatusNormalizer I E (status (afterHooks_ran code r), body (afterHooks_ran code r)))"
    and "body (WriteHeader I E code r) =
           snd (StatusNormalizer I E (status (afterHooks_ran code r), body (afterHooks_ran code r)))"
    and "rw_Header (WriteHeader I E code r) =
           commit_header (body (WriteHeader I E code r)) (rw_Header (afterHooks_ran code r))"
    and "effects (WriteHeader I E code r) =
           effects r @ Rw_WriteHeader (status (WriteHeader I E code r)) (rw_Header (WriteHeader I E code r)) #
             (if endHooks r = [] then [] else [Go_runHooks (endHooks r)])"
    and "rw (WriteHeader I E code r) = rw r"
    and "endHooks (WriteHeader I E code r) = endHooks r"
    and "afterHooks (WriteHeader I E code r) = afterHooks r"
    and "w (WriteHeader I E code r) = w r"
    and "ended (WriteHeader I E code r)"
  by (simp_all add: WriteHeader_effective[OF assms] Let_def afterHooks_ran_frame)

lemma WriteHeader_fold: "wroteHeader r \<Longrightarrow> fold (WriteHeader I E) codes r = r"
  by (induction codes) (simp_all add: WriteHeader_committed)

subsection \<open>Effects, decimal numbers, the header loop\<close>

lemma commits_append: "commits (xs @ ys) = commits xs @ commits ys"
  by (induction xs rule: commits.induct) simp_all

lemma dispatches_append: "dispatches (xs @ ys) = dispatches xs @ dispatches ys"
  by (induction xs rule: dispatches.induct) simp_all

lemma decimal_snoc: "decimal (s @ [c]) = 10 * decimal s + (of_char c - 48)"
  by (simp add: decimal_def)

lemma of_char_digit: "d < 10 \<Longrightarrow> of_char (digit d) = 48 + d"
  by (simp add: digit_def)

lemma decimal_digits: "decimal (digits n) = n"
proof (induction n rule: digits.induct)
  case (1 n)
  show ?case
  proof (cases "n < 10")
    case True
    then show ?thesis
      by (simp add: digits.simps[of n] decimal_def of_char_digit)
  next
    case False
    then have "decimal (digits n) = 10 * decimal (digits (n div 10)) + (of_char (digit (n mod 10)) - 48)"
      by (simp add: digits.simps[of n] decimal_snoc)
    also have "\<dots> = 10 * (n div 10) + n mod 10"
      using 1[OF False] by (simp add: of_char_digit)
    finally show ?thesis by simp
  qed
qed

lemma decimal_Itoa: "0 \<le> i \<Longrightarrow> int (decimal (Itoa i)) = i"
  by (simp add: Itoa_def decimal_digits)

lemma Itoa_3: "Itoa 3 = ''3''"
  by code_simp

lemmas run =
  WriteHeader_def Write_def swapTrue_def setTrue_def isTrue_def runHooks_foldr call_def Let_def
  blank_def sample_IsStatusCode_def sample_isEmptyStatus_def Set_def Header_def Header_Set_def
  rw_WriteHeader_def rw_Write_def go_runHooks_def mark_def set_status_def afterHooks_ran_def

lemma range_header_eq:
  "range_header reg keys h k = (if k \<in> set keys \<and> \<not> MatchString reg k then None else h k)"
  by (induction keys arbitrary: h) auto

lemma range_header_dom:
  assumes "set keys = dom h"
  shows "range_header reg keys h = (\<lambda>k. if MatchString reg k then h k else None)"
proof
  fix k
  show "range_header reg keys h k = (if MatchString reg k then h k else None)"
    using assms by (cases "h k") (auto simp: range_header_eq)
qed

lemma default_filter_Accept: "MatchString defaultHeaderFilterReg ''Accept''"
  by code_simp

lemma default_filter_Vary: "MatchString defaultHeaderFilterReg ''Vary''"
  by code_simp

lemma default_filter_X_Custom: "\<not> MatchString defaultHeaderFilterReg ''X-Custom''"
  by code_simp

lemmas default_filter_sample = default_filter_Accept default_filter_Vary default_filter_X_Custom

section \<open>Properties\<close>

subsection \<open>Committing once\<close>

text \<open>
  C1, as amended. Once a call of \<open>WriteHeader\<close> has taken effect the flag \<open>wroteHeader\<close> is
  set, and every later call, with any status argument, returns the response as it is:
  status, body, header map, hook lists and the list of effects are unchanged, so no hook
  ran, no Content-Length was set and the transport saw no second header commit. A call
  that takes effect, followed by any number of further calls, adds exactly one header
  commit of the transport, and at most one dispatch of the after-commit hooks: one when
  \<open>endHooks\<close> is not empty, none when it is empty (the \<^verbatim>\<open>go\<close> statement is guarded by
  \<^verbatim>\<open>len(r.endHooks) > 0\<close>).
\<close>

theorem WriteHeader_idempotent:
  "(wroteHeader r \<longrightarrow> WriteHeader I E code r = r)
   \<and> wroteHeader (WriteHeader I E code r)
   \<and> fold (WriteHeader I E) codes (WriteHeader I E code r) = WriteHeader I E code r
   \<and> (\<not> wroteHeader r \<longrightarrow>
        (let res = fold (WriteHeader I E) codes (WriteHeader I E code r)
         in commits (effects res) = commits (effects r) @ [(status res, rw_Header res)]
            \<and> dispatches (effects res) =
                dispatches (effects r) @ (if endHooks r = [] then [] else [endHooks r])))"
proof -
  have f: "fold (WriteHeader I E) codes (WriteHeader I E code r) = WriteHeader I E code r"
    by (rule WriteHeader_fold) (rule WriteHeader_wroteHeader)
  have e: "commits (effects (WriteHeader I E code r)) =
             commits (effects r) @ [(status (WriteHeader I E code r), rw_Header (WriteHeader I E code r))]
           \<and> dispatches (effects (WriteHeader I E code r)) =
                dispatches (effects r) @ (if endHooks r = [] then [] else [endHooks r])"
    if "\<not> wroteHeader r"
    using arg_cong[OF WriteHeader_fields(4)[OF that, of I E code], of commits]
      arg_cong[OF WriteHeader_fields(4)[OF that, of I E code], of dispatches]
    by (simp add: commits_append dispatches_append)
  show ?thesis
    unfolding Let_def f using e WriteHeader_committed[of r I E code] WriteHeader_wroteHeader[of I E code r]
    by blast
qed

theorem WriteHeader_idempotent_witness:
  "\<not> wroteHeader (blank\<lparr>endHooks := [mark 7]\<rparr>)
   \<and> commits (effects (fold (WriteHeader sample_IsStatusCode sample_isEmptyStatus) [404, 204]
        (WriteHeader sample_IsStatusCode sample_isEmptyStatus 200 (blank\<lparr>endHooks := [mark 7]\<rparr>))))
      = [(200, Map.empty)]
   \<and> dispatches (effects (fold (WriteHeader sample_IsStatusCode sample_isEmptyStatus) [404, 204]
        (WriteHeader sample_IsStatusCode sample_isEmptyStatus 200 (blank\<lparr>endHooks := [mark 7]\<rparr>))))
      = [[mark 7]]"
  using WriteHeader_idempotent[of "blank\<lparr>endHooks := [mark 7]\<rparr>"
      sample_IsStatusCode sample_isEmptyStatus 200 "[404, 204]"]
  by (simp add: run)

text \<open>
  C1 as stated asks for exactly one dispatch of the after-commit hooks in total. On a
  response without after-commit hooks two calls of \<open>WriteHeader\<close> make one header commit
  and dispatch nothing.
\<close>

theorem commit_without_end_hooks_counterexample:
  "length (dispatches (effects
      (WriteHeader sample_IsStatusCode sample_isEmptyStatus 404
        (WriteHeader sample_IsStatusCode sample_isEmptyStatus 200 blank)))) \<noteq> 1
   \<and> length (commits (effects
      (WriteHeader sample_IsStatusCode sample_isEmptyStatus 404
        (WriteHeader sample_IsStatusCode sample_isEmptyStatus 200 blank)))) = 1"
  by (simp add: run)

subsection \<open>Status normalization\<close>

text \<open>
  C3. In a call of \<open>WriteHeader\<close> that takes effect, let \<open>s\<close> and \<open>b\<close> be the status and body
  once the before-commit hooks have run. The status and body of the result are those the
  normalizer of the spec gives for \<open>(s, b)\<close>: if \<open>s\<close> is not a status code the status is
  200 when \<open>b\<close> is non-nil and 421 when it is nil, and the body stays; else if \<open>s\<close> is an
  empty status the body becomes nil; otherwise both are unchanged. The rows of the table
  follow for every pair of classifications under which 0 and 999 are not status codes,
  204 is a status code and an empty status, and 200 is a status code and not an empty
  status (\<^verbatim>\<open>IsStatusCode\<close> and \<^verbatim>\<open>isEmptyStatus\<close> are declared outside \<^verbatim>\<open>response.go\<close>).
\<close>

theorem WriteHeader_normalizes:
  assumes "\<not> wroteHeader r"
  shows
   "(let s = status (afterHooks_ran code r); b = body (afterHooks_ran code r);
         res = WriteHeader I E code r
     in (status res, body res) = StatusNormalizer I E (s, b)
        \<and> status res = (if \<not> I s then (if b \<noteq> None then 200 else 421) else s)
        \<and> body res = (if I s \<and> E s then None else b)
        \<and> (\<not> I 0 \<and> s = 0 \<and> b = None \<longrightarrow> status res = 421 \<and> body res = None)
        \<and> (\<not> I 0 \<and> s = 0 \<and> b \<noteq> None \<longrightarrow> status res = 200 \<and> body res = b)
        \<and> (\<not> I 999 \<and> s = 999 \<and> b \<noteq> None \<longrightarrow> status res = 200 \<and> body res = b)
        \<and> (I 204 \<and> E 204 \<and> s = 204 \<and> b \<noteq> None \<longrightarrow> status res = 204 \<and> body res = None)
        \<and> (I 200 \<and> \<not> E 200 \<and> s = 200 \<and> b \<noteq> None \<longrightarrow> status res = 200 \<and> body res = b))"
  by (simp add: WriteHeader_fields[OF assms] StatusNormalizer_def Let_def)

theorem WriteHeader_normalizes_witness:
  "\<not> wroteHeader blank
   \<and> status (WriteHeader sample_IsStatusCode sample_isEmptyStatus 0 blank) = 421
   \<and> body (WriteHeader sample_IsStatusCode sample_isEmptyStatus 0 blank) = None
   \<and> status (WriteHeader sample_IsStatusCode sample_isEmptyStatus 0 (blank\<lparr>body := Some [1, 2, 3]\<rparr>)) = 200
   \<and> body (WriteHeader sample_IsStatusCode sample_isEmptyStatus 0 (blank\<lparr>body := Some [1, 2, 3]\<rparr>)) = Some [1, 2, 3]
   \<and> status (WriteHeader sample_IsStatusCode sample_isEmptyStatus 999 (blank\<lparr>body := Some [1, 2, 3]\<rparr>)) = 200
   \<and> body (WriteHeader sample_IsStatusCode sample_isEmptyStatus 999 (blank\<lparr>body := Some [1, 2, 3]\<rparr>)) = Some [1, 2, 3]
   \<and> status (WriteHeader sample_IsStatusCode sample_isEmptyStatus 200
        (blank\<lparr>body := Some [1, 2, 3], afterHooks := [set_status 204]\<rparr>)) = 204
   \<and> body (WriteHeader sample_IsStatusCode sample_isEmptyStatus 200
        (blank\<lparr>body := Some [1, 2, 3], afterHooks := [set_status 204]\<rparr>)) = None
   \<and> status (WriteHeader sample_IsStatusCode sample_isEmptyStatus 200 (blank\<lparr>body := Some [1, 2, 3]\<rparr>)) = 200
   \<and> body (WriteHeader sample_IsStatusCode sample_isEmptyStatus 200 (blank\<lparr>body := Some [1, 2, 3]\<rparr>)) = Some [1, 2, 3]"
proof -
  have n: "\<not> wroteHeader blank" "\<not> wroteHeader (blank\<lparr>body := Some [1, 2, 3]\<rparr>)"
    "\<not> wroteHeader (blank\<lparr>body := Some [1, 2, 3], afterHooks := [set_status 204]\<rparr>)"
    by (simp_all add: blank_def)
  have c: "\<not> sample_IsStatusCode 0" "\<not> sample_IsStatusCode 999" "sample_IsStatusCode 204"
    "sample_isEmptyStatus 204" "sample_IsStatusCode 200" "\<not> sample_isEmptyStatus 200"
    by (simp_all add: sample_IsStatusCode_def sample_isEmptyStatus_def)
  have s: "status (afterHooks_ran 0 blank) = 0" "body (afterHooks_ran 0 blank) = None"
    "status (afterHooks_ran 0 (blank\<lparr>body := Some [1, 2, 3]\<rparr>)) = 0"
    "body (afterHooks_ran 0 (blank\<lparr>body := Some [1, 2, 3]\<rparr>)) = Some [1, 2, 3]"
    "status (afterHooks_ran 999 (blank\<lparr>body := Some [1, 2, 3]\<rparr>)) = 999"
    "body (afterHooks_ran 999 (blank\<lparr>body := Some [1, 2, 3]\<rparr>)) = Some [1, 2, 3]"
    "status (afterHooks_ran 200 (blank\<lparr>body := Some [1, 2, 3], afterHooks := [set_status 204]\<rparr>)) = 204"
    "body (afterHooks_ran 200 (blank\<lparr>body := Some [1, 2, 3], afterHooks := [set_status 204]\<rparr>)) = Some [1, 2, 3]"
    "status (afterHooks_ran 200 (blank\<lparr>body := Some [1, 2, 3]\<rparr>)) = 200"
    "body (afterHooks_ran 200 (blank\<lparr>body := Some [1, 2, 3]\<rparr>)) = Some [1, 2, 3]"
    by (simp_all add: afterHooks_ran_def runHooks_foldr call_def set_status_def blank_def)
  show ?thesis
    using n c s
      WriteHeader_normalizes[OF n(1), of 0 sample_IsStatusCode sample_isEmptyStatus]
      WriteHeader_normalizes[OF n(2), of 0 sample_IsStatusCode sample_isEmptyStatus]
      WriteHeader_normalizes[OF n(2), of 999 sample_IsStatusCode sample_isEmptyStatus]
      WriteHeader_normalizes[OF n(3), of 200 sample_IsStatusCode sample_isEmptyStatus]
      WriteHeader_normalizes[OF n(2), of 200 sample_IsStatusCode sample_isEmptyStatus]
    by (simp add: Let_def)
qed

subsection \<open>Hook order\<close>

text \<open>
  C4. \<open>runHooks\<close> runs a list of hooks last to first: on \<open>[A, B, C]\<close> it calls \<open>C\<close>, then
  \<open>B\<close>, then \<open>A\<close>, and on any list it is the fold of \<open>call\<close> over the reversed list. In a
  call of \<open>WriteHeader\<close> that takes effect, with \<open>[A, B, C]\<close> as the before-commit hooks, the
  status, body and header map handed to the transport are computed from the response
  after \<open>C\<close>, \<open>B\<close>, \<open>A\<close> ran in this order, so the chain ran before the header commit; the
  call adds one header commit, and with \<open>[A, B, C]\<close> as the after-commit hooks the effects
  of the call are that header commit followed by the dispatch of \<open>runHooks [A, B, C]\<close>.
\<close>

theorem hooks_run_LIFO:
  assumes "\<not> wroteHeader r"
  shows
   "(let r1 = r\<lparr>wroteHeader := True, ended := True,
                 status := (if code > 0 then code else status r)\<rparr>;
         res = WriteHeader I E code r
     in runHooks [A, B, C] x = call A (call B (call C x))
        \<and> runHooks hs x = fold call (rev hs) x
        \<and> (afterHooks r = [A, B, C] \<longrightarrow>
             (status res, body res) =
               StatusNormalizer I E
                 (status (call A (call B (call C r1))), body (call A (call B (call C r1))))
             \<and> rw_Header res =
                 commit_header (body res) (rw_Header (call A (call B (call C r1)))))
        \<and> commits (effects res) = commits (effects r) @ [(status res, rw_Header res)]
        \<and> (endHooks r = [A, B, C] \<longrightarrow>
             effects res =
               effects r @ [Rw_WriteHeader (status res) (rw_Header res), Go_runHooks [A, B, C]]))"
proof -
  have h: "afterHooks_ran code r =
      call A (call B (call C (r\<lparr>wroteHeader := True, ended := True,
                 status := (if code > 0 then code else status r)\<rparr>)))"
    if "afterHooks r = [A, B, C]"
    by (simp add: afterHooks_ran_def that runHooks_foldr)
  have f: "fold call (rev hs) x = foldr call hs x"
    by (simp add: foldr_conv_fold)
  have c: "commits (effects (WriteHeader I E code r)) =
      commits (effects r) @ [(status (WriteHeader I E code r), rw_Header (WriteHeader I E code r))]"
    using arg_cong[OF WriteHeader_fields(4)[OF assms, of I E code], of commits]
    by (simp add: commits_append)
  have e: "effects (WriteHeader I E code r) =
       effects r @ [Rw_WriteHeader (status (WriteHeader I E code r)) (rw_Header (WriteHeader I E code r)),
                    Go_runHooks [A, B, C]]"
    if "endHooks r = [A, B, C]"
    using WriteHeader_fields(4)[OF assms, of I E code] that by simp
  have n: "(status (WriteHeader I E code r), body (WriteHeader I E code r)) =
      StatusNormalizer I E (status (afterHooks_ran code r), body (afterHooks_ran code r))"
    by (simp add: WriteHeader_fields(1,2)[OF assms])
  have k: "rw_Header (WriteHeader I E code r) =
      commit_header (body (WriteHeader I E code r)) (rw_Header (afterHooks_ran code r))"
    by (rule WriteHeader_fields(3)[OF assms])
  show ?thesis
    unfolding Let_def using h n k c e by (simp add: f runHooks_foldr)
qed

theorem hooks_run_LIFO_witness:
  "\<not> wroteHeader (blank\<lparr>afterHooks := [mark 1, mark 2, mark 3], endHooks := [mark 4, mark 5, mark 6]\<rparr>)
   \<and> body (WriteHeader sample_IsStatusCode sample_isEmptyStatus 200
        (blank\<lparr>afterHooks := [mark 1, mark 2, mark 3], endHooks := [mark 4, mark 5, mark 6]\<rparr>))
       = Some [3, 2, 1]
   \<and> effects (WriteHeader sample_IsStatusCode sample_isEmptyStatus 200
        (blank\<lparr>afterHooks := [mark 1, mark 2, mark 3], endHooks := [mark 4, mark 5, mark 6]\<rparr>))
       = [Rw_WriteHeader 200 [''Content-Length'' \<mapsto> [''3'']], Go_runHooks [mark 4, mark 5, mark 6]]
   \<and> body (runHooks [mark 4, mark 5, mark 6] (blank\<lparr>body := Some [3, 2, 1]\<rparr>))
       = Some [3, 2, 1, 6, 5, 4]"
proof -
  let ?r = "blank\<lparr>afterHooks := [mark 1, mark 2, mark 3], endHooks := [mark 4, mark 5, mark 6]\<rparr>"
  have n: "\<not> wroteHeader ?r"
    by (simp add: blank_def)
  have h: "afterHooks ?r = [mark 1, mark 2, mark 3]" "endHooks ?r = [mark 4, mark 5, mark 6]"
    "effects ?r = []"
    by (simp_all add: blank_def)
  have c: "call (mark 1) (call (mark 2) (call (mark 3)
             (?r\<lparr>wroteHeader := True, ended := True, status := 200\<rparr>))) =
           ?r\<lparr>wroteHeader := True, ended := True, status := 200, body := Some [3, 2, 1]\<rparr>"
    by (simp add: call_def mark_def blank_def)
  have m: "call (mark 4) (call (mark 5) (call (mark 6) (blank\<lparr>body := Some [3, 2, 1]\<rparr>))) =
           blank\<lparr>body := Some [3, 2, 1, 6, 5, 4]\<rparr>"
    by (simp add: call_def mark_def blank_def)
  have s: "StatusNormalizer sample_IsStatusCode sample_isEmptyStatus (200, Some [3, 2, 1]) =
           (200, Some [3, 2, 1])"
    by (simp add: StatusNormalizer_def sample_IsStatusCode_def sample_isEmptyStatus_def)
  have k: "commit_header (Some [3, 2, 1]) Map.empty = [''Content-Length'' \<mapsto> [''3'']]"
    by (simp add: commit_header_def HeaderContentLength_def Itoa_3)
  have e: "rw_Header blank = Map.empty"
    by (simp add: blank_def)
  note T1 = hooks_run_LIFO[OF n, where A = "mark 1" and B = "mark 2" and C = "mark 3"
        and code = 200 and I = sample_IsStatusCode and E = sample_isEmptyStatus and hs = "[]"
        and x = "blank\<lparr>body := Some [3, 2, 1]\<rparr>", unfolded Let_def]
  note T2 = hooks_run_LIFO[OF n, where A = "mark 4" and B = "mark 5" and C = "mark 6"
        and code = 200 and I = sample_IsStatusCode and E = sample_isEmptyStatus and hs = "[]"
        and x = "blank\<lparr>body := Some [3, 2, 1]\<rparr>", unfolded Let_def]
  let ?res = "WriteHeader sample_IsStatusCode sample_isEmptyStatus 200 ?r"
  have sb: "(status ?res, body ?res) = (200, Some [3, 2, 1])"
    using T1 h(1) c s by simp
  have hd: "rw_Header ?res = [''Content-Length'' \<mapsto> [''3'']]"
    using T1 h(1) c sb k e by simp
  have ef: "effects ?res =
      [Rw_WriteHeader 200 [''Content-Length'' \<mapsto> [''3'']], Go_runHooks [mark 4, mark 5, mark 6]]"
    using T2 h(2,3) sb hd by simp
  have rn: "body (runHooks [mark 4, mark 5, mark 6] (blank\<lparr>body := Some [3, 2, 1]\<rparr>))
       = Some [3, 2, 1, 6, 5, 4]"
    using T2 m by simp
  show ?thesis
    using n sb ef rn by simp
qed

subsection \<open>\<^verbatim>\<open>Write\<close>\<close>

text \<open>
  C5. On a response not yet committed, \<open>Write buf\<close> stores the status 200 if the status is
  0, calls \<open>WriteHeader\<close> with the argument 0, and then hands \<open>buf\<close> as it is to the write of
  the transport: the effects are those of the commit followed by \<open>Rw_Write buf\<close>, and the
  value returned is what the transport returns for \<open>buf\<close>. On a committed response
  \<open>Write buf\<close> only hands \<open>buf\<close> to the transport and returns what it returns.
\<close>

theorem Write_commits_then_passes_through:
  "(let r0 = r\<lparr>status := (if status r = 0 then 200 else status r)\<rparr>;
        c = WriteHeader I E 0 r0
    in (\<not> wroteHeader r \<longrightarrow>
          Write I E buf r = (rw r (effects c) buf, c\<lparr>effects := effects c @ [Rw_Write buf]\<rparr>)
          \<and> effects (snd (Write I E buf r)) =
              effects r @ Rw_WriteHeader (status c) (rw_Header c) #
                (if endHooks r = [] then [] else [Go_runHooks (endHooks r)]) @ [Rw_Write buf]
          \<and> afterHooks_ran 0 r0 =
              runHooks (afterHooks r)
                (r\<lparr>wroteHeader := True, ended := True,
                   status := (if status r = 0 then 200 else status r)\<rparr>))
       \<and> (wroteHeader r \<longrightarrow>
            Write I E buf r = (rw r (effects r) buf, r\<lparr>effects := effects r @ [Rw_Write buf]\<rparr>)))"
proof -
  let ?r0 = "r\<lparr>status := (if status r = 0 then 200 else status r)\<rparr>"
  let ?c = "WriteHeader I E 0 ?r0"
  have r0: "(if status r = 0 then r\<lparr>status := 200\<rparr> else r) = ?r0"
    by simp
  have w: "Write I E buf r = rw_Write buf ?c" if "\<not> wroteHeader r"
    using that unfolding Write_def isTrue_def Let_def r0 by simp
  have n: "\<not> wroteHeader ?r0" if "\<not> wroteHeader r"
    using that by simp
  have a: "Write I E buf r = (rw r (effects ?c) buf, ?c\<lparr>effects := effects ?c @ [Rw_Write buf]\<rparr>)"
    if "\<not> wroteHeader r"
    using w[OF that] WriteHeader_fields(5)[OF n[OF that], of I E 0]
    by (simp add: rw_Write_def)
  have b: "effects (snd (Write I E buf r)) =
              effects r @ Rw_WriteHeader (status ?c) (rw_Header ?c) #
                (if endHooks r = [] then [] else [Go_runHooks (endHooks r)]) @ [Rw_Write buf]"
    if "\<not> wroteHeader r"
    using WriteHeader_fields(4)[OF n[OF that], of I E 0]
    by (simp add: a[OF that])
  have c: "afterHooks_ran 0 ?r0 =
              runHooks (afterHooks r)
                (r\<lparr>wroteHeader := True, ended := True,
                   status := (if status r = 0 then 200 else status r)\<rparr>)"
    by (simp add: afterHooks_ran_def)
  have d: "Write I E buf r = (rw r (effects r) buf, r\<lparr>effects := effects r @ [Rw_Write buf]\<rparr>)"
    if "wroteHeader r"
    using that by (simp add: Write_def isTrue_def rw_Write_def)
  show ?thesis
    unfolding Let_def using a b c d by blast
qed

theorem Write_commits_then_passes_through_witness:
  "\<not> wroteHeader blank
   \<and> Write sample_IsStatusCode sample_isEmptyStatus [104, 105] blank =
       ((2, None),
        blank\<lparr>status := 200, ended := True, wroteHeader := True,
          effects := [Rw_WriteHeader 200 Map.empty, Rw_Write [104, 105]]\<rparr>)
   \<and> wroteHeader (blank\<lparr>wroteHeader := True, status := 404\<rparr>)
   \<and> Write sample_IsStatusCode sample_isEmptyStatus [33] (blank\<lparr>wroteHeader := True, status := 404\<rparr>) =
       ((1, None), blank\<lparr>wroteHeader := True, status := 404, effects := [Rw_Write [33]]\<rparr>)"
proof -
  note T1 = Write_commits_then_passes_through[where r = blank and I = sample_IsStatusCode
      and E = sample_isEmptyStatus and buf = "[104, 105]", unfolded Let_def]
  note T2 = Write_commits_then_passes_through[
      where r = "blank\<lparr>wroteHeader := True, status := 404\<rparr>" and I = sample_IsStatusCode
      and E = sample_isEmptyStatus and buf = "[33]", unfolded Let_def]
  have n: "\<not> wroteHeader blank" "wroteHeader (blank\<lparr>wroteHeader := True, status := 404\<rparr>)"
    by (simp_all add: blank_def)
  have c: "WriteHeader sample_IsStatusCode sample_isEmptyStatus 0
             (blank\<lparr>status := if status blank = 0 then 200 else status blank\<rparr>) =
           blank\<lparr>status := 200, ended := True, wroteHeader := True,
             effects := [Rw_WriteHeader 200 Map.empty]\<rparr>"
    by (simp add: run)
  have r: "rw blank [Rw_WriteHeader 200 Map.empty] [104, 105] = (2, None)"
    "rw (blank\<lparr>wroteHeader := True, status := 404\<rparr>)
       (effects (blank\<lparr>wroteHeader := True, status := 404\<rparr>)) [33] = (1, None)"
    "effects (blank\<lparr>wroteHeader := True, status := 404\<rparr>) = []"
    by (simp_all add: blank_def)
  have a: "Write sample_IsStatusCode sample_isEmptyStatus [104, 105] blank =
       ((2, None),
        blank\<lparr>status := 200, ended := True, wroteHeader := True,
          effects := [Rw_WriteHeader 200 Map.empty, Rw_Write [104, 105]]\<rparr>)"
    using T1 n(1) r(1) by (simp add: c)
  have b: "Write sample_IsStatusCode sample_isEmptyStatus [33] (blank\<lparr>wroteHeader := True, status := 404\<rparr>) =
       ((1, None), blank\<lparr>wroteHeader := True, status := 404, effects := [Rw_Write [33]]\<rparr>)"
    using T2 n(2) r(2,3) by simp
  show ?thesis
    using n a b by simp
qed

subsection \<open>Content-Length\<close>

text \<open>
  C6. A call of \<open>WriteHeader\<close> that takes effect adds one header commit, made with the
  status and the header map of the result. When the body of the result is \<open>Some b\<close>, the
  Content-Length entry of that map is the single value \<open>Itoa (length b)\<close>, the decimal
  string that denotes the length of \<open>b\<close>. When the body of the result is nil, the header
  map is the one the before-commit hooks left: Content-Length is not set.
\<close>

theorem WriteHeader_Content_Length:
  assumes "\<not> wroteHeader r"
  shows
   "(let res = WriteHeader I E code r
     in commits (effects res) = commits (effects r) @ [(status res, rw_Header res)]
        \<and> (\<forall>b. body res = Some b \<longrightarrow>
              rw_Header res HeaderContentLength = Some [Itoa (int (length b))]
              \<and> Get HeaderContentLength res = Itoa (int (length b))
              \<and> decimal (Get HeaderContentLength res) = length b)
        \<and> (body res = None \<longrightarrow> rw_Header res = rw_Header (afterHooks_ran code r)))"
proof -
  let ?res = "WriteHeader I E code r"
  have c: "commits (effects ?res) = commits (effects r) @ [(status ?res, rw_Header ?res)]"
    using arg_cong[OF WriteHeader_fields(4)[OF assms, of I E code], of commits]
    by (simp add: commits_append)
  have h: "rw_Header ?res = commit_header (body ?res) (rw_Header (afterHooks_ran code r))"
    by (rule WriteHeader_fields(3)[OF assms])
  have s: "rw_Header ?res HeaderContentLength = Some [Itoa (int (length b))]
       \<and> Get HeaderContentLength ?res = Itoa (int (length b))
       \<and> decimal (Get HeaderContentLength ?res) = length b" if "body ?res = Some b" for b
    using that h decimal_Itoa[of "int (length b)"]
    by (simp add: commit_header_def Get_def Header_def Header_Get_def)
  have n: "rw_Header ?res = rw_Header (afterHooks_ran code r)" if "body ?res = None"
    using that h by (simp add: commit_header_def)
  show ?thesis
    unfolding Let_def using c s n by blast
qed

theorem WriteHeader_Content_Length_witness:
  "\<not> wroteHeader (blank\<lparr>body := Some [1, 2, 3]\<rparr>)
   \<and> body (WriteHeader sample_IsStatusCode sample_isEmptyStatus 200 (blank\<lparr>body := Some [1, 2, 3]\<rparr>))
       = Some [1, 2, 3]
   \<and> commits (effects (WriteHeader sample_IsStatusCode sample_isEmptyStatus 200
        (blank\<lparr>body := Some [1, 2, 3]\<rparr>))) = [(200, [''Content-Length'' \<mapsto> [''3'']])]
   \<and> body (WriteHeader sample_IsStatusCode sample_isEmptyStatus 204 (blank\<lparr>body := Some [1, 2, 3]\<rparr>))
       = None
   \<and> commits (effects (WriteHeader sample_IsStatusCode sample_isEmptyStatus 204
        (blank\<lparr>body := Some [1, 2, 3]\<rparr>))) = [(204, Map.empty)]"
proof -
  have n: "\<not> wroteHeader (blank\<lparr>body := Some [1, 2, 3]\<rparr>)"
    by (simp add: blank_def)
  have b: "body (WriteHeader sample_IsStatusCode sample_isEmptyStatus 200 (blank\<lparr>body := Some [1, 2, 3]\<rparr>))
       = Some [1, 2, 3]"
    "body (WriteHeader sample_IsStatusCode sample_isEmptyStatus 204 (blank\<lparr>body := Some [1, 2, 3]\<rparr>))
       = None"
    "status (WriteHeader sample_IsStatusCode sample_isEmptyStatus 200 (blank\<lparr>body := Some [1, 2, 3]\<rparr>))
       = 200"
    "status (WriteHeader sample_IsStatusCode sample_isEmptyStatus 204 (blank\<lparr>body := Some [1, 2, 3]\<rparr>))
       = 204"
    "rw_Header (WriteHeader sample_IsStatusCode sample_isEmptyStatus 200 (blank\<lparr>body := Some [1, 2, 3]\<rparr>))
       = [''Content-Length'' \<mapsto> [''3'']]"
    "rw_Header (WriteHeader sample_IsStatusCode sample_isEmptyStatus 204 (blank\<lparr>body := Some [1, 2, 3]\<rparr>))
       = Map.empty"
    "effects (blank\<lparr>body := Some [1, 2, 3]\<rparr>) = []"
    by (simp_all add: run Itoa_3 HeaderContentLength_def)
  show ?thesis
    using n b
      WriteHeader_Content_Length[OF n, of sample_IsStatusCode sample_isEmptyStatus 200]
      WriteHeader_Content_Length[OF n, of sample_IsStatusCode sample_isEmptyStatus 204]
    by (simp add: Let_def)
qed

subsection \<open>Optional capabilities\<close>

text \<open>
  C7. \<open>Push\<close> never faults: when \<^verbatim>\<open>r.w\<close> has no pusher it returns the error
  \<^verbatim>\<open>Err.WithMsg("http.Pusher not implemented")\<close>, and when it has one it returns what the
  pusher returns. \<open>Flush\<close>, \<open>Hijack\<close> and \<open>CloseNotify\<close> fault (the type assertion panics)
  when \<^verbatim>\<open>r.w\<close> lacks the capability, and otherwise return what the capability gives.
\<close>

theorem Push_guarded_others_fault:
  "(Pusher (w r) = None \<longrightarrow>
      Push target opts r = Inr (Some (Err_WithMsg ''http.Pusher not implemented'')))
   \<and> (\<forall>p. Pusher (w r) = Some p \<longrightarrow> Push target opts r = Inr (p target opts))
   \<and> Push target opts r \<noteq> Inl InterfaceConversionPanic
   \<and> (\<not> Flusher (w r) \<longrightarrow> Flush r = Inl InterfaceConversionPanic)
   \<and> (Hijacker (w r) = None \<longrightarrow> Hijack r = Inl InterfaceConversionPanic)
   \<and> (CloseNotifier (w r) = None \<longrightarrow> CloseNotify r = Inl InterfaceConversionPanic)
   \<and> (Flusher (w r) \<longrightarrow> Flush r = Inr (r\<lparr>effects := effects r @ [W_Flush]\<rparr>))
   \<and> (\<forall>c. Hijacker (w r) = Some c \<longrightarrow> Hijack r = Inr c)
   \<and> (\<forall>n. CloseNotifier (w r) = Some n \<longrightarrow> CloseNotify r = Inr n)"
  by (simp add: Push_def Flush_def Hijack_def CloseNotify_def split: option.splits)

theorem Push_guarded_others_fault_witness:
  "Pusher (w blank) = None
   \<and> Push ''/app.css'' () blank = Inr (Some (Err_WithMsg ''http.Pusher not implemented''))
   \<and> \<not> Flusher (w blank) \<and> Flush blank = Inl InterfaceConversionPanic
   \<and> Hijacker (w blank) = None \<and> Hijack blank = Inl InterfaceConversionPanic
   \<and> CloseNotifier (w blank) = None \<and> CloseNotify blank = Inl InterfaceConversionPanic
   \<and> Push ''/app.css'' () (blank\<lparr>w := full_writer\<rparr>) = Inr None
   \<and> Push [] () (blank\<lparr>w := full_writer\<rparr>) = Inr (Some (TransportError ''no target''))
   \<and> Flush (blank\<lparr>w := full_writer\<rparr>) = Inr (blank\<lparr>w := full_writer, effects := [W_Flush]\<rparr>)
   \<and> Hijack (blank\<lparr>w := full_writer\<rparr>) = Inr ()
   \<and> CloseNotify (blank\<lparr>w := full_writer\<rparr>) = Inr ()"
proof -
  have b: "Pusher (w blank) = None" "\<not> Flusher (w blank)" "Hijacker (w blank) = None"
    "CloseNotifier (w blank) = None"
    by (simp_all add: blank_def)
  have f: "Pusher (w (blank\<lparr>w := full_writer\<rparr>)) =
             Some (\<lambda>target opts. if target = [] then Some (TransportError ''no target'') else None)"
    "Flusher (w (blank\<lparr>w := full_writer\<rparr>))" "Hijacker (w (blank\<lparr>w := full_writer\<rparr>)) = Some ()"
    "CloseNotifier (w (blank\<lparr>w := full_writer\<rparr>)) = Some ()"
    "effects (blank\<lparr>w := full_writer\<rparr>) = []"
    by (simp_all add: blank_def full_writer_def)
  show ?thesis
    using b f
      Push_guarded_others_fault[where r = blank and target = "''/app.css''" and opts = "()"]
      Push_guarded_others_fault[where r = "blank\<lparr>w := full_writer\<rparr>" and target = "''/app.css''" and opts = "()"]
      Push_guarded_others_fault[where r = "blank\<lparr>w := full_writer\<rparr>" and target = "[]" and opts = "()"]
    by simp
qed

subsection \<open>\<^verbatim>\<open>Vary\<close>\<close>

text \<open>
  C8. \<open>Vary field\<close> leaves the response as it is when \<open>field\<close> is empty or the Vary header
  already reads \<^verbatim>\<open>*\<close>. Otherwise, when \<open>field\<close> is \<^verbatim>\<open>*\<close> the Vary entry becomes the single
  value \<^verbatim>\<open>*\<close>, and for any other \<open>field\<close> it is appended to the values already there.
  \<open>Vary ''*''\<close> followed by \<open>Vary ''X''\<close> leaves the Vary header reading \<^verbatim>\<open>*\<close>; \<open>Vary ''A''\<close>
  followed by \<open>Vary ''B''\<close>, on a response whose Vary header does not read \<^verbatim>\<open>*\<close>, leaves
  the earlier values followed by A and B.
\<close>

theorem Vary_cases:
  "(field = [] \<or> Get HeaderVary r = ''*'' \<longrightarrow> Vary field r = r)
   \<and> (Get HeaderVary r \<noteq> ''*'' \<longrightarrow>
        Vary ''*'' r = r\<lparr>rw_Header := (rw_Header r)(HeaderVary \<mapsto> [''*''])\<rparr>)
   \<and> (field \<noteq> [] \<and> field \<noteq> ''*'' \<and> Get HeaderVary r \<noteq> ''*'' \<longrightarrow>
        Vary field r =
          r\<lparr>rw_Header := (rw_Header r)(HeaderVary \<mapsto>
               (case rw_Header r HeaderVary of None \<Rightarrow> [] | Some vs \<Rightarrow> vs) @ [field])\<rparr>)
   \<and> Get HeaderVary (Vary ''X'' (Vary ''*'' r)) = ''*''
   \<and> (Get HeaderVary r \<noteq> ''*'' \<longrightarrow>
        rw_Header (Vary ''B'' (Vary ''A'' r)) HeaderVary =
          Some ((case rw_Header r HeaderVary of None \<Rightarrow> [] | Some vs \<Rightarrow> vs) @ [''A'', ''B'']))"
proof -
  have a: "field = [] \<or> Get HeaderVary r = ''*'' \<longrightarrow> Vary field r = r"
    by (auto simp: Vary_def)
  have b: "Get HeaderVary r \<noteq> ''*'' \<longrightarrow>
        Vary ''*'' r = r\<lparr>rw_Header := (rw_Header r)(HeaderVary \<mapsto> [''*''])\<rparr>"
    by (simp add: Vary_def Header_def Header_Set_def)
  have c: "field \<noteq> [] \<and> field \<noteq> ''*'' \<and> Get HeaderVary r \<noteq> ''*'' \<longrightarrow>
        Vary field r =
          r\<lparr>rw_Header := (rw_Header r)(HeaderVary \<mapsto>
               (case rw_Header r HeaderVary of None \<Rightarrow> [] | Some vs \<Rightarrow> vs) @ [field])\<rparr>"
    by (simp add: Vary_def Header_def Header_Add_def)
  have d: "Get HeaderVary (Vary ''X'' (Vary ''*'' r)) = ''*''"
    by (simp add: Vary_def Get_def Header_def Header_Set_def Header_Get_def)
  have e: "Get HeaderVary r \<noteq> ''*'' \<longrightarrow>
        rw_Header (Vary ''B'' (Vary ''A'' r)) HeaderVary =
          Some ((case rw_Header r HeaderVary of None \<Rightarrow> [] | Some vs \<Rightarrow> vs) @ [''A'', ''B''])"
    by (auto simp: Vary_def Get_def Header_def Header_Add_def Header_Get_def
          split: option.splits list.splits)
  from a b c d e show ?thesis by blast
qed

theorem Vary_cases_witness:
  "Get HeaderVary blank \<noteq> ''*''
   \<and> Vary [] blank = blank
   \<and> rw_Header (Vary ''*'' blank) HeaderVary = Some [''*'']
   \<and> Vary ''X'' (Vary ''*'' blank) = Vary ''*'' blank
   \<and> Get HeaderVary (Vary ''X'' (Vary ''*'' blank)) = ''*''
   \<and> rw_Header (Vary ''B'' (Vary ''A'' blank)) HeaderVary = Some [''A'', ''B'']"
proof -
  have g: "Get HeaderVary blank \<noteq> ''*''" "rw_Header blank HeaderVary = None"
    by (simp_all add: Get_def Header_def Header_Get_def blank_def)
  have s: "Get HeaderVary (Vary ''*'' blank) = ''*''"
    using Vary_cases[where r = blank and field = "''*''"] g
    by (simp add: Get_def Header_def Header_Get_def)
  show ?thesis
    using g s
      Vary_cases[where r = blank and field = "[]"]
      Vary_cases[where r = "Vary ''*'' blank" and field = "''X''"]
    by simp
qed

subsection \<open>\<^verbatim>\<open>ResetHeader\<close>\<close>

text \<open>
  C9. \<open>ResetHeader\<close> without a filter argument, whatever the order \<open>keys\<close> in which the loop
  visits the keys of the header map, keeps the entry of every key the default filter
  matches and deletes every other key; nothing else of the response changes. On a header
  map with the keys Accept, X-Custom and Vary it keeps Accept and Vary and removes
  X-Custom.
\<close>

theorem ResetHeader_default_filter:
  assumes "set keys = dom (rw_Header r)"
  shows "ResetHeader [] keys r =
           r\<lparr>rw_Header :=
               (\<lambda>k. if MatchString defaultHeaderFilterReg k then rw_Header r k else None)\<rparr>
         \<and> (dom (rw_Header r) = {''Accept'', ''X-Custom'', ''Vary''} \<longrightarrow>
              rw_Header (ResetHeader [] keys r) ''Accept'' = rw_Header r ''Accept''
              \<and> rw_Header (ResetHeader [] keys r) ''Vary'' = rw_Header r ''Vary''
              \<and> rw_Header (ResetHeader [] keys r) ''X-Custom'' = None
              \<and> dom (rw_Header (ResetHeader [] keys r)) = {''Accept'', ''Vary''})"
proof -
  let ?res = "ResetHeader [] keys r"
  have eq: "?res =
      r\<lparr>rw_Header := (\<lambda>k. if MatchString defaultHeaderFilterReg k then rw_Header r k else None)\<rparr>"
    using range_header_dom[OF assms] by (simp add: ResetHeader_def Header_def)
  have hd: "rw_Header ?res k = (if MatchString defaultHeaderFilterReg k then rw_Header r k else None)"
    for k by (simp add: eq)
  have "dom (rw_Header ?res) = {''Accept'', ''Vary''}"
    if d: "dom (rw_Header r) = {''Accept'', ''X-Custom'', ''Vary''}"
  proof -
    have "dom (rw_Header ?res) = {k \<in> dom (rw_Header r). MatchString defaultHeaderFilterReg k}"
      by (auto simp: hd dom_def)
    also have "\<dots> = {''Accept'', ''Vary''}"
      unfolding d using default_filter_sample by auto
    finally show ?thesis .
  qed
  then show ?thesis
    using eq by (simp add: hd default_filter_sample)
qed

theorem ResetHeader_default_filter_witness:
  "set [''Vary'', ''X-Custom'', ''Accept''] = dom (rw_Header three_headers)
   \<and> rw_Header (ResetHeader [] [''Vary'', ''X-Custom'', ''Accept''] three_headers) ''X-Custom'' = None
   \<and> rw_Header (ResetHeader [] [''Vary'', ''X-Custom'', ''Accept''] three_headers) ''Accept''
       = Some [''text/html'']
   \<and> rw_Header (ResetHeader [] [''Vary'', ''X-Custom'', ''Accept''] three_headers) ''Vary''
       = Some [''Origin'']
   \<and> dom (rw_Header (ResetHeader [] [''Vary'', ''X-Custom'', ''Accept''] three_headers))
       = {''Accept'', ''Vary''}"
proof -
  have k: "set [''Vary'', ''X-Custom'', ''Accept''] = dom (rw_Header three_headers)"
    by (auto simp: three_headers_def)
  have d: "dom (rw_Header three_headers) = {''Accept'', ''X-Custom'', ''Vary''}"
    by (auto simp: three_headers_def)
  have v: "rw_Header three_headers ''Accept'' = Some [''text/html'']"
    "rw_Header three_headers ''Vary'' = Some [''Origin'']"
    by (simp_all add: three_headers_def)
  show ?thesis
    using k d v ResetHeader_default_filter[OF k, THEN conjunct2] by simp
qed

text \<open>
  C10. \<open>ResetHeader\<close> takes a list of filters. Called with two or more, it gives the
  result of the call with the first filter alone: the header map is the one the loop
  leaves when it tests every key against the first filter, and the other filters are not
  consulted.
\<close>

theorem ResetHeader_first_filter_only:
  "ResetHeader (f # g # gs) keys r = ResetHeader [f] keys r
   \<and> ResetHeader (f # g # gs) keys r = r\<lparr>rw_Header := range_header f keys (rw_Header r)\<rparr>"
  by (simp add: ResetHeader_def Header_def)

theorem ResetHeader_first_filter_only_witness:
  "rw_Header (ResetHeader [lit_fold ''x-'', defaultHeaderFilterReg]
      [''Vary'', ''X-Custom'', ''Accept''] three_headers) ''X-Custom'' = Some [''1'']
   \<and> rw_Header (ResetHeader [lit_fold ''x-'', defaultHeaderFilterReg]
      [''Vary'', ''X-Custom'', ''Accept''] three_headers) ''Accept'' = None
   \<and> rw_Header (ResetHeader [lit_fold ''x-'', defaultHeaderFilterReg]
      [''Vary'', ''X-Custom'', ''Accept''] three_headers) ''Vary'' = None"
proof -
  have m: "MatchString (lit_fold ''x-'') ''X-Custom''" "\<not> MatchString (lit_fold ''x-'') ''Accept''"
    "\<not> MatchString (lit_fold ''x-'') ''Vary''"
    by code_simp+
  have v: "rw_Header three_headers ''X-Custom'' = Some [''1'']"
    by (simp add: three_headers_def)
  show ?thesis
    using ResetHeader_first_filter_only[of "lit_fold ''x-''" defaultHeaderFilterReg "[]"
        "[''Vary'', ''X-Custom'', ''Accept'']" three_headers, THEN conjunct2] m v
    by (simp add: range_header_eq)
qed

end
